theory Spec2Isabelle
  imports
    Complex_Main
    "HOL-Library.Char_ord"
    "HOL-Library.List_Lexorder"
    "HOL-Library.Product_Lexorder"
    "HOL-Library.Multiset"
begin

section \<open>The expense table\<close>

text \<open>
  The tracker of \<^verbatim>\<open>expense_tracker.py\<close> keeps one pandas DataFrame \<^verbatim>\<open>self.df\<close> with the
  columns \<^verbatim>\<open>Date\<close>, \<^verbatim>\<open>Category\<close>, \<^verbatim>\<open>Amount\<close> and \<^verbatim>\<open>Description\<close>. A row is a record, the
  frame is the list of its rows in index order (the index is always the default range
  index, so a row label is a position).

  Amounts are Python floats. They are modelled by the exact rationals they denote:
  sums, quotients and roundings are the exact ones, and a float operation whose result
  is not a finite number (a division by zero, the mean of nothing) is the value \<open>None\<close>.
  A timestamp is a calendar date (year, month, day) under the lexicographic order.
\<close>

type_synonym date = "nat \<times> nat \<times> nat"

record expense =
  Date :: date
  Category :: string
  Amount :: rat
  Description :: string

type_synonym dataframe = "expense list"

definition amounts :: "dataframe \<Rightarrow> rat list" where
  "amounts d = map Amount d"

subsection \<open>Library operations used by the tracker\<close>

text \<open>\<^verbatim>\<open>str.strip()\<close>: leading and trailing whitespace removed.\<close>

definition isspace :: "char \<Rightarrow> bool" where
  "isspace c = (let n = (of_char c :: nat) in (9 \<le> n \<and> n \<le> 13) \<or> (28 \<le> n \<and> n \<le> 32))"

definition strip :: "string \<Rightarrow> string" where
  "strip s = rev (dropWhile isspace (rev (dropWhile isspace s)))"

text \<open>
  Float division. numpy does not raise on a zero divisor: the quotient is \<^verbatim>\<open>inf\<close> or
  \<^verbatim>\<open>nan\<close>. Such a quotient is \<open>None\<close> here, so that a division by zero stays visible
  in every value computed from it.
\<close>

definition fdiv :: "rat \<Rightarrow> rat \<Rightarrow> rat option" where
  "fdiv a b = (if b = 0 then None else Some (a / b))"

text \<open>\<^verbatim>\<open>Series.mean()\<close>: pandas returns \<^verbatim>\<open>nan\<close> for a series without values.\<close>

definition mean :: "rat list \<Rightarrow> rat option" where
  "mean xs = (if length xs = 0 then None else fdiv (sum_list xs) (of_nat (length xs)))"

text \<open>
  Rounding to the nearest integer, halves to the even neighbour (\<^verbatim>\<open>numpy.rint\<close>), and
  \<^verbatim>\<open>round(2)\<close>, which is \<^verbatim>\<open>rint(x * 100) / 100\<close>. The format \<^verbatim>\<open>:,.2f\<close> of the printed
  figures rounds the same way.
\<close>

definition rint :: "rat \<Rightarrow> int" where
  "rint x =
     (let f = \<lfloor>x\<rfloor>; d = x - of_int f
      in if d < 1 / 2 then f
         else if 1 / 2 < d then f + 1
         else if even f then f else f + 1)"

definition round2 :: "rat \<Rightarrow> rat" where
  "round2 x = of_int (rint (x * 100)) / 100"

text \<open>
  \<^verbatim>\<open>Series.idxmax()\<close> and \<^verbatim>\<open>Series.idxmin()\<close>: the label of the first occurrence of the
  extreme value; a \<^verbatim>\<open>ValueError\<close> on an empty series (\<open>None\<close>). The scan keeps the
  position of the best value seen and replaces it only by a strictly better one.
\<close>

fun argbest :: "(rat \<Rightarrow> rat \<Rightarrow> bool) \<Rightarrow> rat list \<Rightarrow> nat \<Rightarrow> nat \<Rightarrow> rat \<Rightarrow> nat" where
  "argbest better [] i best bv = best"
| "argbest better (y # ys) i best bv =
     (if better y bv then argbest better ys (Suc i) i y
      else argbest better ys (Suc i) best bv)"

definition idxmax :: "rat list \<Rightarrow> nat option" where
  "idxmax xs = (case xs of [] \<Rightarrow> None | x # ys \<Rightarrow> Some (argbest (\<lambda>y b. b < y) ys 1 0 x))"

definition idxmin :: "rat list \<Rightarrow> nat option" where
  "idxmin xs = (case xs of [] \<Rightarrow> None | x # ys \<Rightarrow> Some (argbest (\<lambda>y b. y < b) ys 1 0 x))"

text \<open>
  \<^verbatim>\<open>groupby('Category')\<close>: one group for each distinct category, the groups in ascending
  order of the category (\<^verbatim>\<open>sort=True\<close> is the default), each group holding its rows in
  frame order.
\<close>

definition groupby_Category :: "dataframe \<Rightarrow> (string \<times> dataframe) list" where
  "groupby_Category d =
     map (\<lambda>c. (c, filter (\<lambda>r. Category r = c) d)) (sort (remdups (map Category d)))"

text \<open>
  \<^verbatim>\<open>sort_values(..., ascending=False)\<close> is called without \<^verbatim>\<open>kind\<close>, so pandas sorts with
  numpy's default \<^verbatim>\<open>quicksort\<close>, which is documented as not stable. The sort is therefore
  a parameter \<open>sv\<close> of every operation that calls it, and all that is known of it is
  \<open>sorts_descending\<close>: the result is a rearrangement of the rows with the keys in
  descending order. \<open>keeps_ties\<close> is the additional property of a stable sort.
\<close>

type_synonym 'a sort_values = "('a \<Rightarrow> rat) \<Rightarrow> 'a list \<Rightarrow> 'a list"



definition stable_sort_values :: "'a sort_values" where
  "stable_sort_values key xs = rev (sort_key key (rev xs))"


section \<open>The tracker and its backing file\<close>

text \<open>
  The state of a tracker: the frame, and the part of the file system it touches. The
  backing file is absent (\<open>None\<close>), or holds rows that \<^verbatim>\<open>read_csv\<close> and
  \<^verbatim>\<open>to_datetime\<close> accept, or is malformed. \<open>writable\<close> tells whether \<^verbatim>\<open>to_csv\<close>
  succeeds; \<^verbatim>\<open>save_data\<close> catches its failure and only prints it.
\<close>

datatype file_content = Rows dataframe | Malformed

record tracker =
  df :: dataframe
  csv_file :: "file_content option"
  writable :: bool

datatype exit = SystemExit nat

definition save_data :: "tracker \<Rightarrow> tracker" where
  "save_data st = (if writable st then st\<lparr>csv_file := Some (Rows (df st))\<rparr> else st)"

definition sample_data :: dataframe where
  "sample_data =
     [\<lparr>Date = (2025, 6, 10), Category = ''Food'', Amount = 150, Description = ''Pizza at Dominos''\<rparr>,
      \<lparr>Date = (2025, 6, 11), Category = ''Transport'', Amount = 50, Description = ''Rickshaw fare''\<rparr>,
      \<lparr>Date = (2025, 6, 12), Category = ''Rent'', Amount = 5000, Description = ''June Rent''\<rparr>,
      \<lparr>Date = (2025, 6, 12), Category = ''Utilities'', Amount = 200, Description = ''Electricity Bill''\<rparr>,
      \<lparr>Date = (2025, 6, 13), Category = ''Food'', Amount = 300, Description = ''Grocery shopping''\<rparr>,
      \<lparr>Date = (2025, 6, 14), Category = ''Entertainment'', Amount = 800, Description = ''Movie tickets''\<rparr>,
      \<lparr>Date = (2025, 6, 15), Category = ''Transport'', Amount = 75, Description = ''Bus fare''\<rparr>]"

definition create_sample_data :: "tracker \<Rightarrow> tracker" where
  "create_sample_data st = save_data (st\<lparr>df := sample_data\<rparr>)"

definition load_data :: "tracker \<Rightarrow> exit + tracker" where
  "load_data st =
     (case csv_file st of
        Some (Rows rs) \<Rightarrow> Inr (st\<lparr>df := rs\<rparr>)
      | Some Malformed \<Rightarrow> Inl (SystemExit 1)
      | None \<Rightarrow> Inr (create_sample_data st))"

text \<open>The constructor: \<^verbatim>\<open>self.df = None\<close>, then \<^verbatim>\<open>load_data\<close>; the menu loop starts after it.\<close>

definition init :: "file_content option \<Rightarrow> bool \<Rightarrow> exit + tracker" where
  "init file w = load_data \<lparr>df = [], csv_file = file, writable = w\<rparr>"

section \<open>Reports\<close>

record overview =
  total_amount :: rat
  total_transactions :: nat
  average_expense :: "rat option"
  highest :: expense
  lowest :: expense

datatype py_error = ValueError

text \<open>
  \<^verbatim>\<open>display_total_overview\<close>: \<open>Inr None\<close> is the early return after
  \<^verbatim>\<open>No expenses found.\<close>, \<open>Inr (Some ov)\<close> the figures that are printed.
\<close>

definition display_total_overview :: "dataframe \<Rightarrow> py_error + overview option" where
  "display_total_overview d =
     (if d = [] then Inr None
      else
        let total_amount = sum_list (amounts d);
            total_transactions = length d;
            average_expense = mean (amounts d)
        in case idxmax (amounts d) of
             None \<Rightarrow> Inl ValueError
           | Some highest_idx \<Rightarrow>
               (case idxmin (amounts d) of
                  None \<Rightarrow> Inl ValueError
                | Some lowest_idx \<Rightarrow>
                    Inr (Some \<lparr>total_amount = total_amount,
                               total_transactions = total_transactions,
                               average_expense = average_expense,
                               highest = d ! highest_idx,
                               lowest = d ! lowest_idx\<rparr>)))"

record category_stat =
  category :: string
  Total_Amount :: rat
  Transaction_Count :: nat
  Average_Amount :: "rat option"
  Description_Count :: nat
  Percentage :: "rat option"

text \<open>
  \<^verbatim>\<open>category_analysis\<close>: \<open>None\<close> is the early return on an empty frame. The aggregate
  is rounded to two places before the percentage is computed, so the percentage is taken
  from the rounded category total and the unrounded grand total.
\<close>

definition percentage_of :: "rat \<Rightarrow> rat \<Rightarrow> rat option" where
  "percentage_of amount total_spending = map_option (\<lambda>q. q * 100) (fdiv amount total_spending)"

definition aggregate :: "string \<times> dataframe \<Rightarrow> category_stat" where
  "aggregate cg =
     \<lparr>category = fst cg,
      Total_Amount = round2 (sum_list (amounts (snd cg))),
      Transaction_Count = length (snd cg),
      Average_Amount = map_option round2 (mean (amounts (snd cg))),
      Description_Count = length (snd cg),
      Percentage = None\<rparr>"


section \<open>Interactive operations\<close>

text \<open>
  The operations that read from the terminal take what was typed as arguments.
  \<^verbatim>\<open>pd.to_datetime\<close> and \<^verbatim>\<open>float\<close> are parameters: \<open>to_datetime s = Some d\<close> when the
  text \<open>s\<close> is accepted as the date \<open>d\<close>, \<open>parse_float s = Some a\<close> when it is
  accepted as the number \<open>a\<close>, and \<open>None\<close> when the call raises \<^verbatim>\<open>ValueError\<close>.
\<close>

datatype filter_report =
    InvalidDateFormat
  | NoExpensesFound
  | Found dataframe rat "(string \<times> rat \<times> rat option) list"

text \<open>
  \<^verbatim>\<open>filter_by_date\<close>. \<open>NoExpensesFound\<close> is the early return after
  \<^verbatim>\<open>No expenses found between ...\<close>; \<open>Found rows t lines\<close> carries the rows listed, the
  total printed and one line (category, amount, percentage) per category.
\<close>

definition filter_by_date ::
  "(string \<Rightarrow> date option) \<Rightarrow> (string \<times> rat) sort_values \<Rightarrow> dataframe \<Rightarrow> string \<Rightarrow> string
     \<Rightarrow> filter_report" where
  "filter_by_date to_datetime sv d start_input end_input =
     (let start_date = strip start_input;
          end_date = strip end_input
      in case to_datetime start_date of
           None \<Rightarrow> InvalidDateFormat
         | Some start_dt \<Rightarrow>
             (case to_datetime end_date of
                None \<Rightarrow> InvalidDateFormat
              | Some end_dt \<Rightarrow>
                  (let filtered_df = filter (\<lambda>r. start_dt \<le> Date r \<and> Date r \<le> end_dt) d
                   in if filtered_df = [] then NoExpensesFound
                      else Found filtered_df (sum_list (amounts filtered_df))
                        (if 0 < length filtered_df then
                           (let category_totals =
                                  sv snd (map (\<lambda>cg. (fst cg, sum_list (amounts (snd cg))))
                                            (groupby_Category filtered_df));
                                total_filtered = sum_list (amounts filtered_df)
                            in map (\<lambda>ca. (fst ca, snd ca, percentage_of (snd ca) total_filtered))
                                 category_totals)
                         else []))))"

datatype add_report = Added | ValidationError string | InvalidInput

text \<open>
  \<^verbatim>\<open>add_new_expense\<close>. A rejected entry prints its message and returns; the message is
  kept in \<open>ValidationError\<close>. \<open>InvalidInput\<close> is the handler of \<^verbatim>\<open>ValueError\<close>. The
  amount is converted before the description is read, and the date only after both
  checks have passed.
\<close>

definition add_new_expense ::
  "(string \<Rightarrow> rat option) \<Rightarrow> (string \<Rightarrow> date option) \<Rightarrow> string \<Rightarrow> tracker
     \<Rightarrow> string \<Rightarrow> string \<Rightarrow> string \<Rightarrow> string \<Rightarrow> add_report \<times> tracker" where
  "add_new_expense parse_float to_datetime today st date_input category_input amount_input
       description_input =
     (let date = strip date_input;
          date = (if date = [] then today else date);
          category = strip category_input
      in case parse_float (strip amount_input) of
           None \<Rightarrow> (InvalidInput, st)
         | Some amount \<Rightarrow>
             (let description = strip description_input
              in if category = [] \<or> description = [] then
                   (ValidationError ''Category and description cannot be empty.'', st)
                 else if amount \<le> 0 then
                   (ValidationError ''Amount must be positive.'', st)
                 else
                   (case to_datetime date of
                      None \<Rightarrow> (InvalidInput, st)
                    | Some dt \<Rightarrow>
                        (Added,
                         save_data
                           (st\<lparr>df := df st @
                                  [\<lparr>Date = dt, Category = category, Amount = amount,
                                    Description = description\<rparr>]\<rparr>)))))"

section \<open>Properties of the data, and example frames\<close>


text \<open>Two categories with the same total.\<close>

definition tied_frame :: dataframe where
  "tied_frame =
     [\<lparr>Date = (2025, 7, 1), Category = ''Food'', Amount = 10, Description = ''Lunch''\<rparr>,
      \<lparr>Date = (2025, 7, 2), Category = ''Rent'', Amount = 10, Description = ''Deposit''\<rparr>]"



text \<open>The rows of \<^verbatim>\<open>category_analysis\<close> as they are before the final sort.\<close>

definition stats_before_sort :: "dataframe \<Rightarrow> category_stat list" where
  "stats_before_sort d =
     map (\<lambda>s. s\<lparr>Percentage :=
                  map_option round2 (percentage_of (Total_Amount s) (sum_list (amounts d)))\<rparr>)
       (map aggregate (groupby_Category d))"

section \<open>Lemmas on the library operations\<close>

subsection \<open>Rounding\<close>













subsection \<open>Sums over groups\<close>





lemma group_categories:
  "map fst (groupby_Category d) = sort (remdups (map Category d))"
  by (simp add: groupby_Category_def comp_def)


subsection \<open>Sorting\<close>





subsection \<open>First extreme value\<close>

lemma argbest_max:
  assumes "length pre = i" and "best < i" and "pre ! best = bv"
    and "\<forall>j<i. pre ! j \<le> bv" and "\<forall>j<best. pre ! j < bv"
  shows "argbest (\<lambda>y b. b < y) ys i best bv < length (pre @ ys) \<and>
         (\<forall>j<length (pre @ ys). (pre @ ys) ! j \<le> (pre @ ys) ! argbest (\<lambda>y b. b < y) ys i best bv) \<and>
         (\<forall>j<argbest (\<lambda>y b. b < y) ys i best bv.
             (pre @ ys) ! j < (pre @ ys) ! argbest (\<lambda>y b. b < y) ys i best bv)"
  using assms
proof (induction ys arbitrary: pre i best bv)
  case Nil
  then show ?case by simp
next
  case (Cons y ys)
  show ?case
  proof (cases "bv < y")
    case True
    have "\<forall>j<Suc i. (pre @ [y]) ! j \<le> y"
      using Cons.prems True by (auto simp: nth_append less_Suc_eq intro: less_imp_le order.trans)
    moreover have "\<forall>j<i. (pre @ [y]) ! j < y"
      using Cons.prems True by (auto simp: nth_append intro: le_less_trans)
    moreover have "(pre @ [y]) ! i = y"
      using Cons.prems(1) by auto
    ultimately show ?thesis
      using Cons.IH [of "pre @ [y]" "Suc i" i y] Cons.prems True by simp
  next
    case False
    have "\<forall>j<Suc i. (pre @ [y]) ! j \<le> bv"
      using Cons.prems False by (auto simp: nth_append less_Suc_eq)
    moreover have "\<forall>j<best. (pre @ [y]) ! j < bv"
      using Cons.prems by (auto simp: nth_append)
    moreover have "(pre @ [y]) ! best = bv"
      using Cons.prems by (simp add: nth_append)
    ultimately show ?thesis
      using Cons.IH [of "pre @ [y]" "Suc i" best bv] Cons.prems False by simp
  qed
qed

lemma argbest_min_max:
  "argbest (\<lambda>y b. y < b) ys i best bv = argbest (\<lambda>y b. b < y) (map uminus ys) i best (- bv)"
  by (induction ys arbitrary: i best bv) auto

lemma idxmax_first:
  assumes "xs \<noteq> []"
  shows "\<exists>k. idxmax xs = Some k \<and> k < length xs \<and> (\<forall>j<length xs. xs ! j \<le> xs ! k) \<and>
             (\<forall>j<k. xs ! j < xs ! k)"
proof -
  from assms obtain x ys where xs: "xs = x # ys"
    by (cases xs) auto
  from argbest_max [of "[x]" 1 0 x ys] show ?thesis
    by (simp add: idxmax_def xs)
qed

lemma idxmin_idxmax: "idxmin xs = idxmax (map uminus xs)"
  by (cases xs) (simp_all add: idxmin_def idxmax_def argbest_min_max)

lemma idxmin_first:
  assumes "xs \<noteq> []"
  shows "\<exists>k. idxmin xs = Some k \<and> k < length xs \<and> (\<forall>j<length xs. xs ! k \<le> xs ! j) \<and>
             (\<forall>j<k. xs ! k < xs ! j)"
proof -
  from assms idxmax_first [of "map uminus xs"]
  obtain k where k: "idxmax (map uminus xs) = Some k" "k < length xs"
      "\<forall>j<length xs. map uminus xs ! j \<le> map uminus xs ! k"
      "\<forall>j<k. map uminus xs ! j < map uminus xs ! k"
    by auto
  then have "\<forall>j<length xs. xs ! k \<le> xs ! j" and "\<forall>j<k. xs ! k < xs ! j"
    by auto
  with k show ?thesis
    by (simp add: idxmin_idxmax)
qed

subsection \<open>The reports on a frame with rows\<close>




lemma stats_before_sort_percentage:
  "map Percentage (stats_before_sort d)
     = map (\<lambda>cg. map_option round2
              (percentage_of (round2 (sum_list (amounts (snd cg)))) (sum_list (amounts d))))
         (groupby_Category d)"
  by (simp add: stats_before_sort_def aggregate_def comp_def)

lemma stats_before_sort_average:
  "map Average_Amount (stats_before_sort d)
     = map (\<lambda>cg. map_option round2 (mean (amounts (snd cg)))) (groupby_Category d)"
  by (simp add: stats_before_sort_def aggregate_def comp_def)


lemma overview_nonempty:
  assumes "d \<noteq> []"
  shows "\<exists>hi lo. display_total_overview d
           = Inr (Some \<lparr>total_amount = sum_list (amounts d), total_transactions = length d,
                        average_expense = Some (sum_list (amounts d) / of_nat (length d)),
                        highest = d ! hi, lowest = d ! lo\<rparr>) \<and>
         hi < length d \<and> lo < length d \<and>
         (\<forall>j<length d. Amount (d ! j) \<le> Amount (d ! hi)) \<and> (\<forall>j<hi. Amount (d ! j) < Amount (d ! hi)) \<and>
         (\<forall>j<length d. Amount (d ! lo) \<le> Amount (d ! j)) \<and> (\<forall>j<lo. Amount (d ! lo) < Amount (d ! j))"
proof -
  from assms have ne: "amounts d \<noteq> []"
    by (simp add: amounts_def)
  from idxmax_first [OF ne] obtain hi where hi: "idxmax (amounts d) = Some hi" "hi < length d"
      "\<forall>j<length d. amounts d ! j \<le> amounts d ! hi" "\<forall>j<hi. amounts d ! j < amounts d ! hi"
    by (auto simp: amounts_def)
  from idxmin_first [OF ne] obtain lo where lo: "idxmin (amounts d) = Some lo" "lo < length d"
      "\<forall>j<length d. amounts d ! lo \<le> amounts d ! j" "\<forall>j<lo. amounts d ! lo < amounts d ! j"
    by (auto simp: amounts_def)
  from assms hi(1) lo(1) have "display_total_overview d
           = Inr (Some \<lparr>total_amount = sum_list (amounts d), total_transactions = length d,
                        average_expense = Some (sum_list (amounts d) / of_nat (length d)),
                        highest = d ! hi, lowest = d ! lo\<rparr>)"
    by (simp add: display_total_overview_def mean_def fdiv_def amounts_def)
  moreover from hi lo have "hi < length d \<and> lo < length d \<and>
         (\<forall>j<length d. Amount (d ! j) \<le> Amount (d ! hi)) \<and> (\<forall>j<hi. Amount (d ! j) < Amount (d ! hi)) \<and>
         (\<forall>j<length d. Amount (d ! lo) \<le> Amount (d ! j)) \<and> (\<forall>j<lo. Amount (d ! lo) < Amount (d ! j))"
    by (simp add: amounts_def)
  ultimately show ?thesis
    by blast
qed

subsection \<open>Groups of positive amounts, and ties\<close>









section \<open>Adding an expense\<close>

text \<open>
  Claim C1. Whenever the amount typed is a number and the entry is invalid (the amount is
  not positive, or the category or the description is empty once stripped),
  \<^verbatim>\<open>add_new_expense\<close> rejects the entry with a validation message and returns the
  tracker as it was: the frame has the same rows and the same length, and nothing is
  written. The witness adds an amount of \<open>-5\<close> to the seven sample rows.
\<close>

theorem add_new_expense_rejects_invalid:
  assumes "parse_float (strip amount_input) = Some amount"
    and "amount \<le> 0 \<or> strip category_input = [] \<or> strip description_input = []"
  shows "(\<exists>msg. add_new_expense parse_float to_datetime today st date_input category_input
               amount_input description_input = (ValidationError msg, st)) \<and>
    length (df (snd (add_new_expense parse_float to_datetime today st date_input
               category_input amount_input description_input))) = length (df st)"
  using assms by (auto simp: add_new_expense_def Let_def)

theorem add_new_expense_rejects_invalid_witness:
  "[''-5'' \<mapsto> - 5] (strip '' -5 '') = Some (- 5 :: rat) \<and>
   add_new_expense [''-5'' \<mapsto> - 5] [''2025-06-16'' \<mapsto> (2025, 6, 16)] ''2025-06-16''
       \<lparr>df = sample_data, csv_file = Some (Rows sample_data), writable = True\<rparr>
       '''' ''Food'' '' -5 '' ''Lunch''
     = (ValidationError ''Amount must be positive.'',
        \<lparr>df = sample_data, csv_file = Some (Rows sample_data), writable = True\<rparr>) \<and>
   length (df (snd (add_new_expense [''-5'' \<mapsto> - 5] [''2025-06-16'' \<mapsto> (2025, 6, 16)]
       ''2025-06-16''
       \<lparr>df = sample_data, csv_file = Some (Rows sample_data), writable = True\<rparr>
       '''' ''Food'' '' -5 '' ''Lunch''))) = 7"
proof -
  have h1: "[''-5'' \<mapsto> - 5] (strip '' -5 '') = Some (- 5 :: rat)"
    by (simp add: strip_def isspace_def)
  have h2: "(- 5 :: rat) \<le> 0 \<or> strip ''Food'' = [] \<or> strip ''Lunch'' = []"
    by simp
  have s: "strip ''Food'' = ''Food''" "strip ''Lunch'' = ''Lunch''"
    by (simp_all add: strip_def isspace_def)
  have l: "length sample_data = 7"
    by (simp add: sample_data_def)
  from add_new_expense_rejects_invalid
         [where parse_float = "[''-5'' \<mapsto> - 5]" and amount_input = "'' -5 ''"
            and category_input = "''Food''" and description_input = "''Lunch''"
            and to_datetime = "[''2025-06-16'' \<mapsto> (2025, 6, 16)]"
            and today = "''2025-06-16''" and date_input = "''''"
            and st = "\<lparr>df = sample_data, csv_file = Some (Rows sample_data), writable = True\<rparr>",
          OF h1 h2]
    h1 s l show ?thesis
    by (auto simp: add_new_expense_def Let_def)
qed

text \<open>
  Claim C10. The check of the category and the description comes before the check of the
  amount: an entry with an empty category or description and an amount that is not
  positive is rejected with the message of the empty field, and so is the same entry
  with any other amount, so the amount is not looked at.
\<close>

theorem empty_field_checked_before_amount:
  assumes "parse_float (strip amount_input) = Some amount"
    and "amount \<le> 0"
    and "strip category_input = [] \<or> strip description_input = []"
  shows "add_new_expense parse_float to_datetime today st date_input category_input
             amount_input description_input
           = (ValidationError ''Category and description cannot be empty.'', st) \<and>
         (\<forall>pf amount'. pf (strip amount_input) = Some amount' \<longrightarrow>
            add_new_expense pf to_datetime today st date_input category_input
              amount_input description_input
            = (ValidationError ''Category and description cannot be empty.'', st))"
  using assms by (auto simp: add_new_expense_def Let_def)

theorem empty_field_checked_before_amount_witness:
  "[''0'' \<mapsto> 0] (strip ''0'') = Some (0 :: rat) \<and> (0 :: rat) \<le> 0 \<and> strip ''   '' = [] \<and>
   add_new_expense [''0'' \<mapsto> 0] Map.empty ''2025-06-16''
       \<lparr>df = sample_data, csv_file = None, writable = True\<rparr> ''2025-06-17'' ''   '' ''0'' ''Tea''
     = (ValidationError ''Category and description cannot be empty.'',
        \<lparr>df = sample_data, csv_file = None, writable = True\<rparr>)"
proof -
  have h1: "[''0'' \<mapsto> 0] (strip ''0'') = Some (0 :: rat)"
    by (simp add: strip_def isspace_def)
  have h2: "(0 :: rat) \<le> 0"
    by simp
  have h3: "strip ''   '' = []"
    by (simp add: strip_def isspace_def)
  then have h3': "strip ''   '' = [] \<or> strip ''Tea'' = []"
    by simp
  from empty_field_checked_before_amount
         [where parse_float = "[''0'' \<mapsto> 0]" and amount_input = "''0''"
            and category_input = "''   ''" and description_input = "''Tea''",
          OF h1 h2 h3']
    h1 h3 show ?thesis
    by simp
qed

section \<open>Loading\<close>

text \<open>
  Claim C9. When the backing file does not exist, \<^verbatim>\<open>load_data\<close> sets the frame to the
  seven sample rows and calls \<^verbatim>\<open>save_data\<close> on it at once, so the file holds these
  rows whenever it can be written; the constructor returns this tracker, and the menu
  loop with its reports runs only after the constructor.
\<close>

theorem load_data_absent_file:
  assumes "csv_file st = None"
  shows "load_data st = Inr (save_data (st\<lparr>df := sample_data\<rparr>)) \<and>
         df (save_data (st\<lparr>df := sample_data\<rparr>)) = sample_data \<and>
         csv_file (save_data (st\<lparr>df := sample_data\<rparr>))
           = (if writable st then Some (Rows sample_data) else None) \<and>
         init None (writable st)
           = Inr \<lparr>df = sample_data,
                  csv_file = (if writable st then Some (Rows sample_data) else None),
                  writable = writable st\<rparr>"
  using assms by (simp add: load_data_def create_sample_data_def save_data_def init_def)

theorem load_data_absent_file_witness:
  "csv_file \<lparr>df = [], csv_file = None, writable = True\<rparr> = None \<and>
   load_data \<lparr>df = [], csv_file = None, writable = True\<rparr>
     = Inr \<lparr>df = sample_data, csv_file = Some (Rows sample_data), writable = True\<rparr> \<and>
   length sample_data = 7"
  using load_data_absent_file [of "\<lparr>df = [], csv_file = None, writable = True\<rparr>"]
  by (simp add: save_data_def sample_data_def)

section \<open>The total overview\<close>

text \<open>
  Claim C6. On the seven sample rows, whose amounts are 150, 50, 5000, 200, 300, 800 and
  75, the overview has the total 6575, seven transactions, an average that rounds to
  939.29, the rent of 5000 as highest and the transport fare of 50 as lowest expense.
\<close>

theorem seed_total_overview:
  "display_total_overview sample_data
     = Inr (Some \<lparr>total_amount = 6575, total_transactions = 7,
                  average_expense = Some (6575 / 7),
                  highest = \<lparr>Date = (2025, 6, 12), Category = ''Rent'', Amount = 5000,
                             Description = ''June Rent''\<rparr>,
                  lowest = \<lparr>Date = (2025, 6, 11), Category = ''Transport'', Amount = 50,
                            Description = ''Rickshaw fare''\<rparr>\<rparr>) \<and>
   round2 (6575 / 7) = 93929 / 100 \<and>
   amounts sample_data = [150, 50, 5000, 200, 300, 800, 75]"
proof -
  have "display_total_overview sample_data
     = Inr (Some \<lparr>total_amount = 6575, total_transactions = 7,
                  average_expense = Some (6575 / 7),
                  highest = \<lparr>Date = (2025, 6, 12), Category = ''Rent'', Amount = 5000,
                             Description = ''June Rent''\<rparr>,
                  lowest = \<lparr>Date = (2025, 6, 11), Category = ''Transport'', Amount = 50,
                            Description = ''Rickshaw fare''\<rparr>\<rparr>)"
    by code_simp
  moreover have "round2 (6575 / 7) = 93929 / 100"
    by code_simp
  moreover have "amounts sample_data = [150, 50, 5000, 200, 300, 800, 75]"
    by (simp add: amounts_def sample_data_def)
  ultimately show ?thesis
    by simp
qed

text \<open>
  Claim C8. On a frame with rows, the highest expense of the overview is a row of greatest
  amount and the lowest a row of least amount, and each is the first such row of the
  frame: every row before it has a strictly smaller (strictly greater) amount. The
  witness is a frame of two rows with the same amount, where both are the first row.
\<close>

theorem highest_lowest_first_extreme:
  assumes "d \<noteq> []"
  shows "\<exists>ov hi lo. display_total_overview d = Inr (Some ov) \<and>
           highest ov = d ! hi \<and> lowest ov = d ! lo \<and> hi < length d \<and> lo < length d \<and>
           (\<forall>j<length d. Amount (d ! j) \<le> Amount (d ! hi)) \<and>
           (\<forall>j<hi. Amount (d ! j) < Amount (d ! hi)) \<and>
           (\<forall>j<length d. Amount (d ! lo) \<le> Amount (d ! j)) \<and>
           (\<forall>j<lo. Amount (d ! lo) < Amount (d ! j))"
proof -
  from overview_nonempty [OF assms] obtain hi lo where
    "display_total_overview d
           = Inr (Some \<lparr>total_amount = sum_list (amounts d), total_transactions = length d,
                        average_expense = Some (sum_list (amounts d) / of_nat (length d)),
                        highest = d ! hi, lowest = d ! lo\<rparr>)"
    and "hi < length d \<and> lo < length d \<and>
         (\<forall>j<length d. Amount (d ! j) \<le> Amount (d ! hi)) \<and> (\<forall>j<hi. Amount (d ! j) < Amount (d ! hi)) \<and>
         (\<forall>j<length d. Amount (d ! lo) \<le> Amount (d ! j)) \<and> (\<forall>j<lo. Amount (d ! lo) < Amount (d ! j))"
    by blast
  then show ?thesis
    by (intro exI [of _ "\<lparr>total_amount = sum_list (amounts d), total_transactions = length d,
                        average_expense = Some (sum_list (amounts d) / of_nat (length d)),
                        highest = d ! hi, lowest = d ! lo\<rparr>"] exI [of _ hi] exI [of _ lo]) simp
qed

theorem highest_lowest_first_extreme_witness:
  "tied_frame \<noteq> [] \<and>
   (\<exists>ov. display_total_overview tied_frame = Inr (Some ov) \<and>
      highest ov = \<lparr>Date = (2025, 7, 1), Category = ''Food'', Amount = 10, Description = ''Lunch''\<rparr> \<and>
      lowest ov = \<lparr>Date = (2025, 7, 1), Category = ''Food'', Amount = 10, Description = ''Lunch''\<rparr>)"
proof -
  have ne: "tied_frame \<noteq> []"
    by (simp add: tied_frame_def)
  from highest_lowest_first_extreme [OF ne] obtain ov hi lo where
    ov: "display_total_overview tied_frame = Inr (Some ov)"
      "highest ov = tied_frame ! hi" "lowest ov = tied_frame ! lo"
    and hi: "hi < length tied_frame" "\<forall>j<hi. Amount (tied_frame ! j) < Amount (tied_frame ! hi)"
    and lo: "lo < length tied_frame" "\<forall>j<lo. Amount (tied_frame ! lo) < Amount (tied_frame ! j)"
    by blast
  have "hi = 0"
  proof (rule ccontr)
    assume "hi \<noteq> 0"
    with hi(1) have "hi = 1"
      by (simp add: tied_frame_def)
    with hi(2) have "Amount (tied_frame ! 0) < Amount (tied_frame ! 1)"
      by simp
    then show False
      by (simp add: tied_frame_def)
  qed
  moreover have "lo = 0"
  proof (rule ccontr)
    assume "lo \<noteq> 0"
    with lo(1) have "lo = 1"
      by (simp add: tied_frame_def)
    with lo(2) have "Amount (tied_frame ! 1) < Amount (tied_frame ! 0)"
      by simp
    then show False
      by (simp add: tied_frame_def)
  qed
  ultimately show ?thesis
    using ov ne by (simp add: tied_frame_def)
qed

section \<open>Filtering by date\<close>

text \<open>
  Claim C4. When both dates typed are accepted, \<^verbatim>\<open>filter_by_date\<close> lists exactly the rows
  whose date lies between the start and the end date, both included, in frame order. If
  there is none it reports that no expenses were found, which is not an error; this is so
  whenever the end date is before the start date. A frame of one row dated \<open>d\<close> gives
  that row for the range from \<open>d\<close> to \<open>d\<close>.
\<close>

theorem filter_by_date_inclusive:
  assumes "to_datetime (strip start_input) = Some start_dt"
    and "to_datetime (strip end_input) = Some end_dt"
  shows "(filter (\<lambda>r. start_dt \<le> Date r \<and> Date r \<le> end_dt) d = [] \<longrightarrow>
            filter_by_date to_datetime sv d start_input end_input = NoExpensesFound) \<and>
         (filter (\<lambda>r. start_dt \<le> Date r \<and> Date r \<le> end_dt) d \<noteq> [] \<longrightarrow>
            (\<exists>t lines. filter_by_date to_datetime sv d start_input end_input
               = Found (filter (\<lambda>r. start_dt \<le> Date r \<and> Date r \<le> end_dt) d) t lines)) \<and>
         (end_dt < start_dt \<longrightarrow>
            filter_by_date to_datetime sv d start_input end_input = NoExpensesFound) \<and>
         (start_dt = end_dt \<longrightarrow>
            (\<exists>t lines. filter_by_date to_datetime sv [r\<lparr>Date := start_dt\<rparr>] start_input end_input
               = Found [r\<lparr>Date := start_dt\<rparr>] t lines))"
proof -
  have "end_dt < start_dt \<Longrightarrow> filter (\<lambda>r. start_dt \<le> Date r \<and> Date r \<le> end_dt) d = []"
    by (induction d) auto
  with assms show ?thesis
    by (auto simp: filter_by_date_def Let_def)
qed

theorem filter_by_date_inclusive_witness:
  "filter_by_date [''2025-06-12'' \<mapsto> (2025, 6, 12), ''2025-06-15'' \<mapsto> (2025, 6, 15)]
       stable_sort_values sample_data '' 2025-06-15'' ''2025-06-12 '' = NoExpensesFound \<and>
   (\<exists>t lines.
     filter_by_date [''2025-06-12'' \<mapsto> (2025, 6, 12), ''2025-06-15'' \<mapsto> (2025, 6, 15)]
       stable_sort_values sample_data ''2025-06-12'' ''2025-06-12''
     = Found [\<lparr>Date = (2025, 6, 12), Category = ''Rent'', Amount = 5000,
                Description = ''June Rent''\<rparr>,
              \<lparr>Date = (2025, 6, 12), Category = ''Utilities'', Amount = 200,
                Description = ''Electricity Bill''\<rparr>] t lines)"
proof -
  let ?td = "[''2025-06-12'' \<mapsto> (2025, 6, 12), ''2025-06-15'' \<mapsto> (2025 :: nat, 6 :: nat, 15 :: nat)]"
  have a: "?td (strip '' 2025-06-15'') = Some (2025, 6, 15)"
    by (simp add: strip_def isspace_def)
  have b: "?td (strip ''2025-06-12 '') = Some (2025, 6, 12)"
    by (simp add: strip_def isspace_def)
  have c: "?td (strip ''2025-06-12'') = Some (2025, 6, 12)"
    by (simp add: strip_def isspace_def)
  have lt: "((2025, 6, 12) :: date) < (2025, 6, 15)"
    by simp
  have f: "filter (\<lambda>r. (2025, 6, 12) \<le> Date r \<and> Date r \<le> (2025, 6, 12)) sample_data
     = [\<lparr>Date = (2025, 6, 12), Category = ''Rent'', Amount = 5000,
                Description = ''June Rent''\<rparr>,
              \<lparr>Date = (2025, 6, 12), Category = ''Utilities'', Amount = 200,
                Description = ''Electricity Bill''\<rparr>]"
    by (simp add: sample_data_def)
  from filter_by_date_inclusive [where to_datetime = ?td, OF a b, of sample_data stable_sort_values] lt
  have 1: "filter_by_date ?td stable_sort_values sample_data '' 2025-06-15'' ''2025-06-12 '' = NoExpensesFound"
    by blast
  from filter_by_date_inclusive [where to_datetime = ?td, OF c c, of sample_data stable_sort_values] f
  have 2: "\<exists>t lines. filter_by_date ?td stable_sort_values sample_data ''2025-06-12'' ''2025-06-12''
     = Found [\<lparr>Date = (2025, 6, 12), Category = ''Rent'', Amount = 5000,
                Description = ''June Rent''\<rparr>,
              \<lparr>Date = (2025, 6, 12), Category = ''Utilities'', Amount = 200,
                Description = ''Electricity Bill''\<rparr>] t lines"
    by simp
  from 1 2 show ?thesis
    by simp
qed

section \<open>The category analysis\<close>









section \<open>Division by zero in the reports\<close>




end
